theory Spec2Isabelle
  imports Complex_Main
begin

section \<open>FNOL claims agent: extraction, completeness check and routing\<close>

text \<open>
  A shallow embedding of \<^verbatim>\<open>src/main.py\<close>. A Python \<^verbatim>\<open>str\<close> is a list of
  characters; the embedding covers the strings whose code points are below 256, one
  \<^typ>\<open>char\<close> per code point. On these strings the Unicode-aware operations of Python
  (\<^verbatim>\<open>str.lower\<close>, \<^verbatim>\<open>str.strip\<close>, \<^verbatim>\<open>\s\<close>, \<^verbatim>\<open>\d\<close>, case-insensitive matching) are the
  functions written out below. \<^verbatim>\<open>None\<close> is the \<open>None\<close> of an option type, an exception is
  the left summand of a sum.
\<close>

subsection \<open>Python values, strings and exceptions\<close>

datatype py_error = AttributeError | KeyError | ValueError | DocumentError

text \<open>The code point of a character.\<close>

definition ord :: "char \<Rightarrow> nat" where
  "ord c = of_char c"

text \<open>\<^verbatim>\<open>str.isspace\<close> on one character, which is also what \<^verbatim>\<open>\s\<close> matches.\<close>

definition py_isspace :: "char \<Rightarrow> bool" where
  "py_isspace c = (let n = ord c in
     (9 \<le> n \<and> n \<le> 13) \<or> (28 \<le> n \<and> n \<le> 32) \<or> n = 133 \<or> n = 160)"

text \<open>\<^verbatim>\<open>\d\<close>: the decimal digits.\<close>

definition py_isdigit :: "char \<Rightarrow> bool" where
  "py_isdigit c = (let n = ord c in 48 \<le> n \<and> n \<le> 57)"

text \<open>\<^verbatim>\<open>str.lower\<close> on one character: A-Z and the upper-case letters of Latin-1.\<close>

definition lower_char :: "char \<Rightarrow> char" where
  "lower_char c = (let n = ord c in
     if (65 \<le> n \<and> n \<le> 90) \<or> (192 \<le> n \<and> n \<le> 222 \<and> n \<noteq> 215)
     then char_of (n + 32) else c)"

definition py_lower :: "string \<Rightarrow> string" where
  "py_lower s = map lower_char s"

text \<open>\<^verbatim>\<open>str.strip()\<close>: white space is removed at both ends.\<close>

definition py_strip :: "string \<Rightarrow> string" where
  "py_strip s = rev (dropWhile py_isspace (rev (dropWhile py_isspace s)))"

text \<open>\<^verbatim>\<open>w in s\<close> for strings: \<open>w\<close> occurs in \<open>s\<close> as a contiguous block.\<close>

fun starts_with :: "string \<Rightarrow> string \<Rightarrow> bool" where
  "starts_with [] s = True"
| "starts_with (w # ws) [] = False"
| "starts_with (w # ws) (c # cs) = (w = c \<and> starts_with ws cs)"

fun py_in :: "string \<Rightarrow> string \<Rightarrow> bool" where
  "py_in w [] = (w = [])"
| "py_in w (c # cs) = (starts_with w (c # cs) \<or> py_in w cs)"

text \<open>\<^verbatim>\<open>sep.join(xs)\<close>.\<close>

fun py_join :: "string \<Rightarrow> string list \<Rightarrow> string" where
  "py_join sep [] = []"
| "py_join sep [x] = x"
| "py_join sep (x # y # ys) = x @ sep @ py_join sep (y # ys)"

text \<open>
  A value of the field dictionary is a string or \<^verbatim>\<open>None\<close>. Truthiness: \<^verbatim>\<open>None\<close> and the
  empty string are falsy. \<^verbatim>\<open>a or b\<close> is \<open>a\<close> when \<open>a\<close> is truthy, else \<open>b\<close>.
\<close>

type_synonym py_val = "string option"

fun truthy :: "py_val \<Rightarrow> bool" where
  "truthy None = False"
| "truthy (Some s) = (s \<noteq> [])"

definition py_or :: "py_val \<Rightarrow> py_val \<Rightarrow> py_val" where
  "py_or a b = (if truthy a then a else b)"

text \<open>\<^verbatim>\<open>v or ""\<close>, which is always a string.\<close>

fun or_empty :: "py_val \<Rightarrow> string" where
  "or_empty None = []"
| "or_empty (Some s) = s"

text \<open>\<^verbatim>\<open>str(v)\<close>.\<close>

fun py_str :: "py_val \<Rightarrow> string" where
  "py_str None = ''None''"
| "py_str (Some s) = s"

text \<open>
  The dictionary of extracted fields: a key is not in the dictionary (\<open>None\<close>), or it is
  there with the value \<^verbatim>\<open>None\<close> (\<open>Some None\<close>) or with a string. \<^verbatim>\<open>f.get(k)\<close> gives
  \<^verbatim>\<open>None\<close> for a key that is not there; \<^verbatim>\<open>f[k]\<close> raises \<^verbatim>\<open>KeyError\<close>.
\<close>

type_synonym fields = "string \<rightharpoonup> py_val"

definition dict_get :: "fields \<Rightarrow> string \<Rightarrow> py_val" where
  "dict_get f k = (case f k of None \<Rightarrow> None | Some v \<Rightarrow> v)"

definition dict_item :: "fields \<Rightarrow> string \<Rightarrow> py_error + py_val" where
  "dict_item f k = (case f k of None \<Rightarrow> Inl KeyError | Some v \<Rightarrow> Inr v)"

subsection \<open>The mandatory field catalog and the completeness check\<close>

definition MANDATORY_FIELDS :: "string list" where
  "MANDATORY_FIELDS =
    [''policy_number'', ''policyholder_name'', ''effective_dates'',
     ''incident_date'', ''incident_time'', ''incident_location'',
     ''incident_description'', ''claimant'', ''third_parties'',
     ''contact_details'', ''asset_type'', ''asset_id'',
     ''estimated_damage'', ''claim_type'', ''attachments'',
     ''initial_estimate'']"

text \<open>
  The condition of the comprehension in \<^verbatim>\<open>find_missing_fields\<close>:
  \<^verbatim>\<open>not f.get(k) or str(f[k]).strip() == ""\<close>. The right operand is evaluated only when
  the left one is false.
\<close>

definition is_missing :: "fields \<Rightarrow> string \<Rightarrow> py_error + bool" where
  "is_missing f k =
    (if \<not> truthy (dict_get f k) then Inr True
     else (case dict_item f k of
             Inl e \<Rightarrow> Inl e
           | Inr v \<Rightarrow> Inr (py_strip (py_str v) = [])))"

text \<open>The comprehension \<^verbatim>\<open>[k for k in ks if cond(k)]\<close>; an exception of the condition ends it.\<close>

fun select_keys :: "(string \<Rightarrow> py_error + bool) \<Rightarrow> string list \<Rightarrow> py_error + string list" where
  "select_keys cond [] = Inr []"
| "select_keys cond (k # ks) =
    (case cond k of
       Inl e \<Rightarrow> Inl e
     | Inr b \<Rightarrow> (case select_keys cond ks of
                  Inl e \<Rightarrow> Inl e
                | Inr r \<Rightarrow> Inr (if b then k # r else r)))"

definition find_missing_fields :: "fields \<Rightarrow> py_error + string list" where
  "find_missing_fields f = select_keys (is_missing f) MANDATORY_FIELDS"

text \<open>
  The specification's reading of "missing": the value is absent, or it is a string that
  is empty once the white space around it is removed.
\<close>

definition spec_missing :: "fields \<Rightarrow> string \<Rightarrow> bool" where
  "spec_missing f k =
    (case f k of
       None \<Rightarrow> True
     | Some None \<Rightarrow> True
     | Some (Some s) \<Rightarrow> py_strip s = [])"

subsection \<open>Regular expressions as \<^verbatim>\<open>re\<close> matches them\<close>

text \<open>
  The patterns of \<^verbatim>\<open>extract_fields\<close> use literals, character classes, greedy and lazy
  repetition of one character, alternation, an optional non-capturing group, the end
  anchor \<^verbatim>\<open>\Z\<close> and one capturing group each. The flags are \<^verbatim>\<open>re.I\<close> and \<^verbatim>\<open>re.S\<close>.
\<close>

record flags =
  ignorecase :: bool
  dotall :: bool

datatype citem =
    Chr char
  | Range char char
  | Space

datatype atom =
    Dot
  | In "citem list"
  | NotIn "citem list"

datatype regex =
    Lit string
  | Rep atom nat "nat option" bool
  | Seq regex regex
  | Alt regex regex
  | Opt regex
  | Group regex
  | EndZ

text \<open>The characters of a range, by code point.\<close>

definition range_chars :: "char \<Rightarrow> char \<Rightarrow> char list" where
  "range_chars lo hi = map char_of [ord lo ..< Suc (ord hi)]"

text \<open>
  A literal character and a character of a class under \<^verbatim>\<open>re.I\<close>: the pattern's characters
  are lowered when the pattern is compiled, the subject's character when it is matched.
\<close>

definition chr_match :: "bool \<Rightarrow> char \<Rightarrow> char \<Rightarrow> bool" where
  "chr_match ic p c = (if ic then lower_char p = lower_char c else p = c)"

fun item_match :: "bool \<Rightarrow> citem \<Rightarrow> char \<Rightarrow> bool" where
  "item_match ic (Chr p) c = chr_match ic p c"
| "item_match ic (Range lo hi) c = list_ex (\<lambda>p. chr_match ic p c) (range_chars lo hi)"
| "item_match ic Space c = py_isspace c"

fun atom_match :: "flags \<Rightarrow> atom \<Rightarrow> char \<Rightarrow> bool" where
  "atom_match fl Dot c = (dotall fl \<or> c \<noteq> CHR 0x0A)"
| "atom_match fl (In items) c = list_ex (\<lambda>i. item_match (ignorecase fl) i c) items"
| "atom_match fl (NotIn items) c = (\<not> list_ex (\<lambda>i. item_match (ignorecase fl) i c) items)"

text \<open>Does the subject start with the literal?\<close>

fun lit_match :: "bool \<Rightarrow> string \<Rightarrow> string \<Rightarrow> bool" where
  "lit_match ic [] s = True"
| "lit_match ic (p # ps) [] = False"
| "lit_match ic (p # ps) (c # cs) = (chr_match ic p c \<and> lit_match ic ps cs)"

text \<open>
  The number of leading characters of the subject that the atom matches, at most
  \<open>hi\<close> of them when there is an upper bound.
\<close>

fun run_length :: "(char \<Rightarrow> bool) \<Rightarrow> nat option \<Rightarrow> string \<Rightarrow> nat" where
  "run_length p hi [] = 0"
| "run_length p hi (c # cs) =
    (if hi = Some 0 \<or> \<not> p c then 0
     else Suc (run_length p (map_option (\<lambda>h. h - 1) hi) cs))"

text \<open>
  A matching state is the rest of the subject and what group 1 holds. \<open>rx_match\<close>
  lists the states in which a match of the regex can end, in the order in which the
  backtracking matcher tries them: a greedy repetition from the longest run down, a lazy
  one from the shortest up, the left alternative before the right one.
\<close>

type_synonym mstate = "string \<times> string option"

fun rx_match :: "flags \<Rightarrow> regex \<Rightarrow> mstate \<Rightarrow> mstate list" where
  "rx_match fl (Lit l) (s, g) =
    (if lit_match (ignorecase fl) l s then [(drop (length l) s, g)] else [])"
| "rx_match fl (Rep a lo hi greedy) (s, g) =
    (let n = run_length (atom_match fl a) hi s;
         counts = [lo ..< Suc n]
     in map (\<lambda>k. (drop k s, g)) (if greedy then rev counts else counts))"
| "rx_match fl (Seq r1 r2) st = concat (map (rx_match fl r2) (rx_match fl r1 st))"
| "rx_match fl (Alt r1 r2) st = rx_match fl r1 st @ rx_match fl r2 st"
| "rx_match fl (Opt r) st = rx_match fl r st @ [st]"
| "rx_match fl (Group r) (s, g) =
    map (\<lambda>(s', g'). (s', Some (take (length s - length s') s))) (rx_match fl r (s, g))"
| "rx_match fl EndZ (s, g) = (if s = [] then [(s, g)] else [])"

text \<open>
  \<^verbatim>\<open>re.search\<close>: the first start position with a match, and there the match that the
  matcher finds first. The result is the state in which the match ends.
\<close>

fun re_search :: "flags \<Rightarrow> regex \<Rightarrow> string \<Rightarrow> mstate option" where
  "re_search fl r [] = (case rx_match fl r ([], None) of [] \<Rightarrow> None | m # ms \<Rightarrow> Some m)"
| "re_search fl r (c # cs) =
    (case rx_match fl r (c # cs, None) of
       [] \<Rightarrow> re_search fl r cs
     | m # ms \<Rightarrow> Some m)"

text \<open>A sequence of regexes, and the flags \<^verbatim>\<open>re.I | re.S\<close> and \<^verbatim>\<open>re.I\<close>.\<close>

fun seqs :: "regex list \<Rightarrow> regex" where
  "seqs [] = Lit []"
| "seqs [r] = r"
| "seqs (r # rs) = Seq r (seqs rs)"

definition flags_I_S :: flags where
  "flags_I_S = \<lparr>ignorecase = True, dotall = True\<rparr>"

definition flags_I :: flags where
  "flags_I = \<lparr>ignorecase = True, dotall = False\<rparr>"

text \<open>
  \<^verbatim>\<open>first_group\<close>: \<^verbatim>\<open>m.group(1).strip() if m else None\<close>. When group 1 took no part in
  the match, \<^verbatim>\<open>m.group(1)\<close> is \<^verbatim>\<open>None\<close> and \<^verbatim>\<open>.strip()\<close> raises.
\<close>

definition first_group :: "regex \<Rightarrow> string \<Rightarrow> flags \<Rightarrow> py_error + py_val" where
  "first_group pattern text fl =
    (case re_search fl pattern text of
       None \<Rightarrow> Inr None
     | Some (rest, None) \<Rightarrow> Inl AttributeError
     | Some (rest, Some g) \<Rightarrow> Inr (Some (py_strip g)))"

subsection \<open>The patterns of \<^verbatim>\<open>extract_fields\<close>\<close>

definition star :: "atom \<Rightarrow> regex" where
  "star a = Rep a 0 None True"

definition plus :: "atom \<Rightarrow> regex" where
  "plus a = Rep a 1 None True"

definition optional :: "atom \<Rightarrow> regex" where
  "optional a = Rep a 0 (Some 1) True"

definition NL :: char where
  "NL = CHR 0x0A"

text \<open>\<^verbatim>\<open>[:\s]\<close>, \<^verbatim>\<open>[^\n]\<close>, \<^verbatim>\<open>[0-9]\<close> and \<^verbatim>\<open>[0-9,\.]\<close>.\<close>

definition colon_space :: atom where
  "colon_space = In [Chr CHR '':'', Space]"

definition not_newline :: atom where
  "not_newline = NotIn [Chr NL]"

definition digit :: atom where
  "digit = In [Range CHR ''0'' CHR ''9'']"

definition amount_char :: atom where
  "amount_char = In [Range CHR ''0'' CHR ''9'', Chr CHR '','', Chr CHR ''.'']"

text \<open>\<^verbatim>\<open>POLICY\s*NUMBER[:\s]*([A-Z0-9\-]+)\<close>\<close>

definition pat_policy_number :: regex where
  "pat_policy_number = seqs
    [Lit ''POLICY'', star (In [Space]), Lit ''NUMBER'', star colon_space,
     Group (plus (In [Range CHR ''A'' CHR ''Z'', Range CHR ''0'' CHR ''9'', Chr CHR ''-'']))]"

text \<open>\<^verbatim>\<open>NAME OF INSURED[^\n]*\n(.*)\<close>\<close>

definition pat_policyholder_name :: regex where
  "pat_policyholder_name = seqs
    [Lit ''NAME OF INSURED'', star not_newline, Lit [NL], Group (star Dot)]"

text \<open>\<^verbatim>\<open>Effective\s*Dates?[:\s]*([0-9/.\-\s]+to[0-9/.\-\s]+)\<close>\<close>

definition date_char :: atom where
  "date_char = In [Range CHR ''0'' CHR ''9'', Chr CHR ''/'', Chr CHR ''.'', Chr CHR ''-'', Space]"

definition pat_effective_dates :: regex where
  "pat_effective_dates = seqs
    [Lit ''Effective'', star (In [Space]), Lit ''Date'', optional (In [Chr CHR ''s'']),
     star colon_space,
     Group (seqs [plus date_char, Lit ''to'', plus date_char])]"

text \<open>\<^verbatim>\<open>DATE OF LOSS[:\s]*([0-9]{2}/[0-9]{2}/[0-9]{4})\<close>\<close>

definition pat_incident_date :: regex where
  "pat_incident_date = seqs
    [Lit ''DATE OF LOSS'', star colon_space,
     Group (seqs [Rep digit 2 (Some 2) True, Lit ''/'', Rep digit 2 (Some 2) True, Lit ''/'',
                  Rep digit 4 (Some 4) True])]"

text \<open>\<^verbatim>\<open>TIME[:\s]*([0-9]{1,2}:[0-9]{2}\s*(?:AM|PM)?)\<close>\<close>

definition pat_incident_time :: regex where
  "pat_incident_time = seqs
    [Lit ''TIME'', star colon_space,
     Group (seqs [Rep digit 1 (Some 2) True, Lit '':'', Rep digit 2 (Some 2) True,
                  star (In [Space]), Opt (Alt (Lit ''AM'') (Lit ''PM''))])]"

text \<open>\<^verbatim>\<open>LOCATION OF LOSS[^\n]*\n(.*)\<close>\<close>

definition pat_incident_location :: regex where
  "pat_incident_location = seqs
    [Lit ''LOCATION OF LOSS'', star not_newline, Lit [NL], Group (star Dot)]"

text \<open>\<^verbatim>\<open>DESCRIPTION OF ACCIDENT[^\n]*\n(.+?)(?:\n[A-Z ]{5,}:|\Z)\<close>\<close>

definition pat_incident_description :: regex where
  "pat_incident_description = seqs
    [Lit ''DESCRIPTION OF ACCIDENT'', star not_newline, Lit [NL],
     Group (Rep Dot 1 None False),
     Alt (seqs [Lit [NL], Rep (In [Range CHR ''A'' CHR ''Z'', Chr CHR '' '']) 5 None True,
                Lit '':''])
         EndZ]"

text \<open>\<^verbatim>\<open>CLAIMANT[:\s]*([^\n]+)\<close>\<close>

definition pat_claimant :: regex where
  "pat_claimant = seqs [Lit ''CLAIMANT'', star colon_space, Group (plus not_newline)]"

text \<open>\<^verbatim>\<open>THIRD PART(?:Y|IES)[:\s]*([^\n]+)\<close>\<close>

definition pat_third_parties :: regex where
  "pat_third_parties = seqs
    [Lit ''THIRD PART'', Alt (Lit ''Y'') (Lit ''IES''), star colon_space,
     Group (plus not_newline)]"

text \<open>\<^verbatim>\<open>PHONE\s*#.*?\n(.+?)(?:\n\n|\Z)\<close>\<close>

definition pat_contact_details :: regex where
  "pat_contact_details = seqs
    [Lit ''PHONE'', star (In [Space]), Lit ''#'', Rep Dot 0 None False, Lit [NL],
     Group (Rep Dot 1 None False),
     Alt (Lit [NL, NL]) EndZ]"

text \<open>\<^verbatim>\<open>V\.?I\.?N\.?[:\s]*([A-HJ-NPR-Z0-9]{11,17})\<close>\<close>

definition vin_char :: atom where
  "vin_char = In [Range CHR ''A'' CHR ''H'', Range CHR ''J'' CHR ''N'', Chr CHR ''P'',
                  Range CHR ''R'' CHR ''Z'', Range CHR ''0'' CHR ''9'']"

definition pat_asset_id :: regex where
  "pat_asset_id = seqs
    [Lit ''V'', optional (In [Chr CHR ''.'']), Lit ''I'', optional (In [Chr CHR ''.'']),
     Lit ''N'', optional (In [Chr CHR ''.'']), star colon_space,
     Group (Rep vin_char 11 (Some 17) True)]"

text \<open>\<^verbatim>\<open>ESTIMATE AMOUNT[:\s]*([$]?\s*[0-9,\.]+)\<close>\<close>

definition pat_amount :: regex where
  "pat_amount = Group (seqs [optional (In [Chr CHR ''$'']), star (In [Space]), plus amount_char])"

definition pat_estimated_damage :: regex where
  "pat_estimated_damage = seqs [Lit ''ESTIMATE AMOUNT'', star colon_space, pat_amount]"

text \<open>\<^verbatim>\<open>CLAIM TYPE[:\s]*([^\n]+)\<close>\<close>

definition pat_claim_type :: regex where
  "pat_claim_type = seqs [Lit ''CLAIM TYPE'', star colon_space, Group (plus not_newline)]"

text \<open>\<^verbatim>\<open>INITIAL ESTIMATE[:\s]*([$]?\s*[0-9,\.]+)\<close>\<close>

definition pat_initial_estimate :: regex where
  "pat_initial_estimate = seqs [Lit ''INITIAL ESTIMATE'', star colon_space, pat_amount]"

subsection \<open>\<^verbatim>\<open>extract_fields\<close>\<close>

text \<open>
  \<^verbatim>\<open>f[k] = v\<close> in a run of assignments: an exception raised while \<open>v\<close> is computed, or
  before, ends the run.
\<close>

definition assign :: "py_error + fields \<Rightarrow> string \<Rightarrow> py_error + py_val \<Rightarrow> py_error + fields" where
  "assign st k v =
    (case st of
       Inl e \<Rightarrow> Inl e
     | Inr f \<Rightarrow> (case v of Inl e \<Rightarrow> Inl e | Inr x \<Rightarrow> Inr (f(k \<mapsto> x))))"

text \<open>\<^verbatim>\<open>"Yes" if re.search(r"ATTACHMENT", text, re.I) else "Unknown"\<close>\<close>

definition attachments_of :: "string \<Rightarrow> py_val" where
  "attachments_of text =
    (case re_search flags_I (Lit ''ATTACHMENT'') text of
       None \<Rightarrow> Some ''Unknown''
     | Some m \<Rightarrow> Some ''Yes'')"

definition extract_fields :: "string \<Rightarrow> py_error + fields" where
  "extract_fields text =
    (let f = Inr Map.empty;
         f = assign f ''policy_number'' (first_group pat_policy_number text flags_I_S);
         f = assign f ''policyholder_name'' (first_group pat_policyholder_name text flags_I_S);
         f = assign f ''effective_dates'' (first_group pat_effective_dates text flags_I_S);
         f = assign f ''incident_date'' (first_group pat_incident_date text flags_I_S);
         f = assign f ''incident_time'' (first_group pat_incident_time text flags_I_S);
         f = assign f ''incident_location'' (first_group pat_incident_location text flags_I_S);
         f = assign f ''incident_description''
               (first_group pat_incident_description text flags_I_S);
         f = assign f ''claimant'' (first_group pat_claimant text flags_I_S);
         f = assign f ''third_parties'' (first_group pat_third_parties text flags_I_S);
         f = assign f ''contact_details'' (first_group pat_contact_details text flags_I_S);
         f = assign f ''asset_type'' (Inr (Some ''Vehicle''));
         f = assign f ''asset_id'' (first_group pat_asset_id text flags_I_S);
         f = assign f ''estimated_damage'' (first_group pat_estimated_damage text flags_I_S);
         f = assign f ''claim_type'' (first_group pat_claim_type text flags_I_S);
         f = assign f ''attachments'' (Inr (attachments_of text));
         f = assign f ''initial_estimate'' (first_group pat_initial_estimate text flags_I_S)
     in f)"

text \<open>The fields that a pattern fills, each with its pattern.\<close>

definition field_patterns :: "(string \<times> regex) list" where
  "field_patterns =
    [(''policy_number'', pat_policy_number),
     (''policyholder_name'', pat_policyholder_name),
     (''effective_dates'', pat_effective_dates),
     (''incident_date'', pat_incident_date),
     (''incident_time'', pat_incident_time),
     (''incident_location'', pat_incident_location),
     (''incident_description'', pat_incident_description),
     (''claimant'', pat_claimant),
     (''third_parties'', pat_third_parties),
     (''contact_details'', pat_contact_details),
     (''asset_id'', pat_asset_id),
     (''estimated_damage'', pat_estimated_damage),
     (''claim_type'', pat_claim_type),
     (''initial_estimate'', pat_initial_estimate)]"

text \<open>Group 1 is set on every path through the regex.\<close>

fun sets_group :: "regex \<Rightarrow> bool" where
  "sets_group (Group r) = True"
| "sets_group (Seq r1 r2) = (sets_group r1 \<or> sets_group r2)"
| "sets_group (Alt r1 r2) = (sets_group r1 \<and> sets_group r2)"
| "sets_group r = False"

subsection \<open>Floating-point numbers\<close>

text \<open>
  A Python \<^verbatim>\<open>float\<close> is a binary64 number: a rational of the form \<open>m * 2^q\<close> with
  \<open>m < 2^53\<close> and \<open>-1074 \<le> q \<le> 971\<close>, or an infinity. (Not-a-number and the negative
  zero are not values of this model; \<^verbatim>\<open>float\<close> of a string of digits and points gives
  neither.)
\<close>

datatype py_float = Finite rat | PosInf | NegInf

text \<open>The number of digits of \<open>n\<close> in base \<open>b\<close>, and the digits in base ten.\<close>

function ndigits :: "nat \<Rightarrow> nat \<Rightarrow> nat" where
  "ndigits b n = (if n = 0 \<or> b < 2 then 0 else Suc (ndigits b (n div b)))"
  by pat_completeness auto
termination
  by (relation "measure snd") auto

function digits10 :: "nat \<Rightarrow> string" where
  "digits10 n = (if n < 10 then [char_of (48 + n)] else digits10 (n div 10) @ [char_of (48 + n mod 10)])"
  by pat_completeness auto
termination
  by (relation "measure id") auto

text \<open>For \<open>x > 0\<close> the integer \<open>e\<close> with \<open>b^e \<le> x < b^(e+1)\<close>.\<close>

definition floor_log :: "nat \<Rightarrow> rat \<Rightarrow> int" where
  "floor_log b x =
    (if 1 \<le> x then int (ndigits b (nat \<lfloor>x\<rfloor>)) - 1
     else - int (ndigits b (nat \<lceil>1 / x\<rceil> - 1)))"

text \<open>Rounding to the nearest integer, a tie to the even one.\<close>

definition round_half_even :: "rat \<Rightarrow> int" where
  "round_half_even x =
    (let f = \<lfloor>x\<rfloor>; d = x - of_int f
     in if d < 1 / 2 then f
        else if 1 / 2 < d then f + 1
        else if even f then f else f + 1)"

text \<open>
  The binary64 number nearest to a rational \<open>x > 0\<close>: 53 significant bits, the
  exponent of the last bit at least \<open>-1074\<close>, and infinity from \<open>2^1024\<close> on.
\<close>

definition nearest_double_pos :: "rat \<Rightarrow> py_float" where
  "nearest_double_pos x =
    (let q = max (floor_log 2 x - 52) (- 1074);
         m = round_half_even (x / 2 powi q);
         y = of_int m * 2 powi q
     in if 2 powi 1024 \<le> y then PosInf else Finite y)"

definition nearest_double :: "rat \<Rightarrow> py_float" where
  "nearest_double x =
    (if x = 0 then Finite 0
     else if 0 < x then nearest_double_pos x
     else (case nearest_double_pos (- x) of
             Finite y \<Rightarrow> Finite (- y)
           | PosInf \<Rightarrow> NegInf
           | NegInf \<Rightarrow> PosInf))"

text \<open>The value of a string of decimal digits.\<close>

definition digits_value :: "string \<Rightarrow> nat" where
  "digits_value ds = foldl (\<lambda>v c. 10 * v + (ord c - 48)) 0 ds"

text \<open>
  \<^verbatim>\<open>float(n)\<close> for a string of digits and points, which is all that \<^verbatim>\<open>parse_amount\<close>
  hands to it: digits with at most one point among them, and at least one digit, are read
  as a decimal number and rounded; anything else raises \<^verbatim>\<open>ValueError\<close>. (Of other
  strings \<^verbatim>\<open>float\<close> accepts more: signs, exponents, white space around, underscores.)
\<close>

definition float_of_str :: "string \<Rightarrow> py_error + py_float" where
  "float_of_str n =
    (let ip = takeWhile py_isdigit n; rest = dropWhile py_isdigit n
     in case rest of
          [] \<Rightarrow> if ip = [] then Inl ValueError
                else Inr (nearest_double (of_nat (digits_value ip)))
        | c # fp \<Rightarrow>
            if c = CHR ''.'' \<and> list_all py_isdigit fp \<and> (ip \<noteq> [] \<or> fp \<noteq> [])
            then Inr (nearest_double (of_nat (digits_value (ip @ fp)) / 10 ^ length fp))
            else Inl ValueError)"

text \<open>Truthiness of a float, and \<^verbatim>\<open>est < 25000\<close> against an integer.\<close>

fun float_truthy :: "py_float \<Rightarrow> bool" where
  "float_truthy (Finite x) = (x \<noteq> 0)"
| "float_truthy PosInf = True"
| "float_truthy NegInf = True"

fun float_less_int :: "py_float \<Rightarrow> int \<Rightarrow> bool" where
  "float_less_int (Finite x) n = (x < of_int n)"
| "float_less_int PosInf n = False"
| "float_less_int NegInf n = True"

text \<open>
  \<^verbatim>\<open>repr\<close> of a float, which is what an f-string prints: the shortest decimal that
  rounds to the float (of several, the nearest), in positional notation when the decimal
  point lies within 16 digits to the right and 4 to the left of the first digit, else in
  exponent notation.

  \<open>repr_candidate x n\<close> is the decimal of \<open>n\<close> significant digits that rounds to
  \<open>x\<close>, when there is one: an integer and the power of ten that scales it.
\<close>

definition repr_candidate :: "rat \<Rightarrow> nat \<Rightarrow> (int \<times> int) option" where
  "repr_candidate x n =
    (let k = floor_log 10 x - int n + 1;
         lo = \<lfloor>x / 10 powi k\<rfloor>;
         hi = lo + 1;
         oklo = (nearest_double (of_int lo * 10 powi k) = Finite x);
         okhi = (nearest_double (of_int hi * 10 powi k) = Finite x);
         dlo = x - of_int lo * 10 powi k;
         dhi = of_int hi * 10 powi k - x
     in if oklo \<and> okhi then
          Some (if dlo < dhi then lo else if dhi < dlo then hi
                else if even lo then lo else hi, k)
        else if oklo then Some (lo, k)
        else if okhi then Some (hi, k)
        else None)"

fun shortest_repr :: "rat \<Rightarrow> nat list \<Rightarrow> int \<times> int" where
  "shortest_repr x [] = (\<lfloor>x / 10 powi (floor_log 10 x - 16)\<rfloor>, floor_log 10 x - 16)"
| "shortest_repr x (n # ns) =
    (case repr_candidate x n of Some c \<Rightarrow> c | None \<Rightarrow> shortest_repr x ns)"

text \<open>The digits without the zeros at their end.\<close>

definition strip_zeros :: "string \<Rightarrow> string" where
  "strip_zeros ds = rev (dropWhile (\<lambda>c. c = CHR ''0'') (rev ds))"

text \<open>The exponent of the exponent notation: a sign and at least two digits.\<close>

definition exp_str :: "int \<Rightarrow> string" where
  "exp_str e =
    (let ds = digits10 (nat \<bar>e\<bar>)
     in (if e < 0 then ''-'' else ''+'') @ (if length ds < 2 then ''0'' @ ds else ds))"

definition repr_pos :: "rat \<Rightarrow> string" where
  "repr_pos x =
    (let (c, k) = shortest_repr x [1, 2, 3, 4, 5, 6, 7, 8, 9, 10, 11, 12, 13, 14, 15, 16, 17];
         all = digits10 (nat c);
         ds = strip_zeros all;
         decpt = k + int (length all)
     in if - 4 < decpt \<and> decpt \<le> 16 then
          (if decpt \<le> 0 then ''0.'' @ replicate (nat (- decpt)) CHR ''0'' @ ds
           else if int (length ds) \<le> decpt
             then ds @ replicate (nat decpt - length ds) CHR ''0'' @ ''.0''
           else take (nat decpt) ds @ ''.'' @ drop (nat decpt) ds)
        else
          take 1 ds @ (if 1 < length ds then ''.'' @ drop 1 ds else [])
            @ ''e'' @ exp_str (decpt - 1))"

fun float_repr :: "py_float \<Rightarrow> string" where
  "float_repr (Finite x) =
    (if x = 0 then ''0.0'' else if x < 0 then ''-'' @ repr_pos (- x) else repr_pos x)"
| "float_repr PosInf = ''inf''"
| "float_repr NegInf = ''-inf''"

subsection \<open>\<^verbatim>\<open>parse_amount\<close>\<close>

text \<open>\<^verbatim>\<open>re.sub(r"[^\d\.]", "", s)\<close>: every character that is no digit and no point goes.\<close>

definition digit_or_point :: "char \<Rightarrow> bool" where
  "digit_or_point c = (py_isdigit c \<or> c = CHR ''.'')"

definition strip_amount :: "string \<Rightarrow> string" where
  "strip_amount s = filter digit_or_point s"

text \<open>
  \<^verbatim>\<open>try: return float(n) if n else 0.0\<close>, \<^verbatim>\<open>except ValueError: return 0.0\<close>. Another
  exception than \<^verbatim>\<open>ValueError\<close> would leave the function.
\<close>

definition parse_amount :: "py_val \<Rightarrow> py_error + py_float" where
  "parse_amount s =
    (if \<not> truthy s then Inr (Finite 0)
     else (let n = strip_amount (or_empty s)
           in case (if n \<noteq> [] then float_of_str n else Inr (Finite 0)) of
                Inl ValueError \<Rightarrow> Inr (Finite 0)
              | Inl e \<Rightarrow> Inl e
              | Inr v \<Rightarrow> Inr v))"

subsection \<open>\<^verbatim>\<open>route_claim\<close> and the pipeline\<close>

definition fraud_words :: "string list" where
  "fraud_words = [''fraud'', ''inconsistent'', ''staged'']"

text \<open>
  The locals \<^verbatim>\<open>desc\<close>, \<^verbatim>\<open>ctype\<close> and \<^verbatim>\<open>est\<close> are computed first, so an exception of
  \<^verbatim>\<open>parse_amount\<close> would come before any rule.
\<close>

definition route_claim :: "fields \<Rightarrow> string list \<Rightarrow> py_error + string \<times> string" where
  "route_claim f missing =
    (let desc = py_lower (or_empty (dict_get f ''incident_description''));
         ctype = py_lower (or_empty (dict_get f ''claim_type''))
     in case parse_amount (py_or (dict_get f ''estimated_damage'') (dict_get f ''initial_estimate'')) of
          Inl e \<Rightarrow> Inl e
        | Inr est \<Rightarrow>
            if missing \<noteq> [] then
              Inr (''Manual review'', ''Missing mandatory fields: '' @ py_join '', '' missing)
            else if list_ex (\<lambda>w. py_in w desc) fraud_words then
              Inr (''Investigation Flag'', ''Description contains potential fraud indicators.'')
            else if py_in ''injury'' ctype then
              Inr (''Specialist Queue'', ''Claim type indicates injury.'')
            else if float_truthy est \<and> float_less_int est 25000 then
              Inr (''Fast-track'', ''Estimated damage '' @ float_repr est @ '' < 25000.'')
            else
              Inr (''Manual review'', ''No specific routing rule matched.''))"

record claim_result =
  extractedFields :: fields
  missingFields :: "string list"
  recommendedRoute :: string
  reasoning :: string

text \<open>\<^verbatim>\<open>process_fnol\<close> from the text on: extraction, completeness check, routing.\<close>

definition process_text :: "string \<Rightarrow> py_error + claim_result" where
  "process_text text =
    (case extract_fields text of
       Inl e \<Rightarrow> Inl e
     | Inr extracted \<Rightarrow>
         (case find_missing_fields extracted of
            Inl e \<Rightarrow> Inl e
          | Inr missing \<Rightarrow>
              (case route_claim extracted missing of
                 Inl e \<Rightarrow> Inl e
               | Inr (route, reason) \<Rightarrow>
                   Inr \<lparr>extractedFields = extracted, missingFields = missing,
                        recommendedRoute = route, reasoning = reason\<rparr>)))"

text \<open>
  \<^verbatim>\<open>process_fnol\<close>, with \<^verbatim>\<open>pdf_to_text\<close> (the PDF library) as a parameter: it gives the
  text of the document at a path, or fails.
\<close>

definition process_fnol :: "(string \<Rightarrow> py_error + string) \<Rightarrow> string \<Rightarrow> py_error + claim_result" where
  "process_fnol pdf_to_text path =
    (case pdf_to_text path of
       Inl e \<Rightarrow> Inl e
     | Inr text \<Rightarrow> process_text text)"

text \<open>
  What \<^verbatim>\<open>first_group\<close> returns when it returns: \<^verbatim>\<open>None\<close> without a match, else the
  stripped group.
\<close>

definition group_value :: "regex \<Rightarrow> string \<Rightarrow> flags \<Rightarrow> py_val" where
  "group_value pattern text fl =
    (case re_search fl pattern text of
       None \<Rightarrow> None
     | Some (rest, g) \<Rightarrow> map_option py_strip g)"

text \<open>The dictionary that \<^verbatim>\<open>extract_fields\<close> builds when no \<^verbatim>\<open>first_group\<close> raises.\<close>

definition extracted :: "string \<Rightarrow> fields" where
  "extracted text = Map.empty
    (''policy_number'' \<mapsto> group_value pat_policy_number text flags_I_S,
     ''policyholder_name'' \<mapsto> group_value pat_policyholder_name text flags_I_S,
     ''effective_dates'' \<mapsto> group_value pat_effective_dates text flags_I_S,
     ''incident_date'' \<mapsto> group_value pat_incident_date text flags_I_S,
     ''incident_time'' \<mapsto> group_value pat_incident_time text flags_I_S,
     ''incident_location'' \<mapsto> group_value pat_incident_location text flags_I_S,
     ''incident_description'' \<mapsto> group_value pat_incident_description text flags_I_S,
     ''claimant'' \<mapsto> group_value pat_claimant text flags_I_S,
     ''third_parties'' \<mapsto> group_value pat_third_parties text flags_I_S,
     ''contact_details'' \<mapsto> group_value pat_contact_details text flags_I_S,
     ''asset_type'' \<mapsto> Some ''Vehicle'',
     ''asset_id'' \<mapsto> group_value pat_asset_id text flags_I_S,
     ''estimated_damage'' \<mapsto> group_value pat_estimated_damage text flags_I_S,
     ''claim_type'' \<mapsto> group_value pat_claim_type text flags_I_S,
     ''attachments'' \<mapsto> attachments_of text,
     ''initial_estimate'' \<mapsto> group_value pat_initial_estimate text flags_I_S)"

text \<open>
  Fields as the extractor gives them for a notice that has an initial estimate and no
  estimate amount: every catalog field has a value but \<^verbatim>\<open>estimated_damage\<close>.
\<close>

definition fallback_fields :: fields where
  "fallback_fields = Map.empty
    (''policy_number'' \<mapsto> Some ''AB-1'',
     ''policyholder_name'' \<mapsto> Some ''Jo Doe'',
     ''effective_dates'' \<mapsto> Some ''1/1 to 2/2'',
     ''incident_date'' \<mapsto> Some ''02/03/2024'',
     ''incident_time'' \<mapsto> Some ''9:30'',
     ''incident_location'' \<mapsto> Some ''Main St'',
     ''incident_description'' \<mapsto> Some ''Hit a pole'',
     ''claimant'' \<mapsto> Some ''Jo'',
     ''third_parties'' \<mapsto> Some ''none'',
     ''contact_details'' \<mapsto> Some ''555'',
     ''asset_type'' \<mapsto> Some ''Vehicle'',
     ''asset_id'' \<mapsto> Some ''1HGCM82633A004352'',
     ''estimated_damage'' \<mapsto> None,
     ''claim_type'' \<mapsto> Some ''Collision'',
     ''attachments'' \<mapsto> Some ''Yes'',
     ''initial_estimate'' \<mapsto> Some ''$5,000'')"

subsection \<open>Facts about strings and the completeness check\<close>

lemma py_strip_Nil: "py_strip [] = []"
  by (simp add: py_strip_def)

lemma is_missing_spec: "is_missing f k = Inr (spec_missing f k)"
  by (cases "f k"; cases "the (f k)")
     (auto simp: is_missing_def spec_missing_def dict_get_def dict_item_def py_strip_Nil)

lemma select_keys_total:
  assumes "\<And>k. cond k = Inr (p k)"
  shows "select_keys cond ks = Inr (filter p ks)"
  by (induction ks) (simp_all add: assms)

lemma find_missing_fields_eq:
  "find_missing_fields f = Inr (filter (spec_missing f) MANDATORY_FIELDS)"
  unfolding find_missing_fields_def
  by (rule select_keys_total) (rule is_missing_spec)

lemma starts_with_iff: "starts_with w s \<longleftrightarrow> (\<exists>q. s = w @ q)"
  by (induction w s rule: starts_with.induct) auto

lemma py_in_iff: "py_in w s \<longleftrightarrow> (\<exists>p q. s = p @ w @ q)"
proof (induction s)
  case Nil
  then show ?case by simp
next
  case (Cons c cs)
  show ?case
  proof
    assume "py_in w (c # cs)"
    then consider "starts_with w (c # cs)" | "py_in w cs" by auto
    then show "\<exists>p q. c # cs = p @ w @ q"
    proof cases
      case 1
      then obtain q where "c # cs = w @ q" using starts_with_iff by blast
      then have "c # cs = [] @ w @ q" by simp
      then show ?thesis by blast
    next
      case 2
      with Cons.IH obtain p q where "cs = p @ w @ q" by blast
      then have "c # cs = (c # p) @ w @ q" by simp
      then show ?thesis by blast
    qed
  next
    assume "\<exists>p q. c # cs = p @ w @ q"
    then obtain p q where pq: "c # cs = p @ w @ q" by blast
    show "py_in w (c # cs)"
    proof (cases p)
      case Nil
      with pq have "starts_with w (c # cs)" using starts_with_iff by auto
      then show ?thesis by simp
    next
      case (Cons a p')
      with pq have "cs = p' @ w @ q" by simp
      with Cons.IH have "py_in w cs" by blast
      then show ?thesis by simp
    qed
  qed
qed

subsection \<open>Facts about the matcher\<close>

lemma rx_match_keeps_group:
  "(s', g') \<in> set (rx_match fl r (s, g)) \<Longrightarrow> g \<noteq> None \<Longrightarrow> g' \<noteq> None"
proof (induction r arbitrary: s g s' g')
  case (Seq r1 r2)
  then show ?case by (fastforce simp: )
next
  case (Group r)
  then show ?case by auto
qed (auto simp: Let_def split: if_splits)

lemma rx_match_sets_group:
  "sets_group r \<Longrightarrow> (s', g') \<in> set (rx_match fl r (s, g)) \<Longrightarrow> g' \<noteq> None"
proof (induction r arbitrary: s g s' g')
  case (Seq r1 r2)
  from Seq.prems(2) obtain s1 g1 where
    m1: "(s1, g1) \<in> set (rx_match fl r1 (s, g))" and m2: "(s', g') \<in> set (rx_match fl r2 (s1, g1))"
    by auto
  show ?case
  proof (cases "sets_group r1")
    case True
    with Seq.IH(1) m1 have "g1 \<noteq> None" by blast
    with m2 show ?thesis by (rule rx_match_keeps_group)
  next
    case False
    with Seq.prems(1) have "sets_group r2" by simp
    with Seq.IH(2) m2 show ?thesis by blast
  qed
next
  case (Alt r1 r2)
  then show ?case by auto
next
  case (Group r)
  then show ?case by auto
qed simp_all

lemma re_search_Some:
  "re_search fl r s = Some m \<Longrightarrow> \<exists>t. m \<in> set (rx_match fl r (t, None))"
proof (induction s)
  case Nil
  then have "m \<in> set (rx_match fl r ([], None))"
    by (cases "rx_match fl r ([], None)") auto
  then show ?case by blast
next
  case (Cons c cs)
  show ?case
  proof (cases "rx_match fl r (c # cs, None)")
    case Nil
    with Cons show ?thesis by simp
  next
    case (Cons m' ms)
    with Cons.prems have "m \<in> set (rx_match fl r (c # cs, None))" by simp
    then show ?thesis by blast
  qed
qed

lemma first_group_Inr:
  assumes "sets_group p"
  shows "first_group p text fl = Inr (group_value p text fl)"
proof (cases "re_search fl p text")
  case None
  then show ?thesis by (simp add: first_group_def group_value_def)
next
  case (Some m)
  obtain rest g where m: "m = (rest, g)" by (cases m)
  from Some obtain t where "m \<in> set (rx_match fl p (t, None))"
    using re_search_Some by blast
  with assms m have "g \<noteq> None" using rx_match_sets_group by blast
  then obtain v where "g = Some v" by auto
  with Some m show ?thesis by (simp add: first_group_def group_value_def)
qed

subsection \<open>Facts about amounts and routing\<close>

lemma float_of_str_cases:
  "float_of_str n = Inl ValueError \<or> (\<exists>v. float_of_str n = Inr v)"
  by (auto simp: float_of_str_def Let_def split: list.splits)

lemma parse_amount_total: "\<exists>v. parse_amount s = Inr v"
  using float_of_str_cases [of "strip_amount (or_empty s)"]
  by (auto simp: parse_amount_def Let_def)

lemma route_claim_missing_rule:
  assumes "missing \<noteq> []"
  shows "route_claim f missing =
    Inr (''Manual review'', ''Missing mandatory fields: '' @ py_join '', '' missing)"
proof -
  obtain est where "parse_amount (py_or (dict_get f ''estimated_damage'') (dict_get f ''initial_estimate'')) = Inr est"
    using parse_amount_total by blast
  with assms show ?thesis by (simp add: route_claim_def)
qed

subsection \<open>Evaluation on concrete inputs\<close>

lemma floor_numeral_div: "\<lfloor>numeral a / numeral b :: rat\<rfloor> = numeral a div numeral b"
  using floor_divide_of_int_eq [of "numeral a" "numeral b", where ?'a = rat] by simp

lemma replicate_numeral: "replicate (numeral k) x = x # replicate (pred_numeral k) x"
  by (simp add: numeral_eq_Suc)

lemmas char_eval = ord_def char_of_def bit_Suc_0_iff lower_char_def py_isspace_def py_isdigit_def

lemmas double_eval = nearest_double_def nearest_double_pos_def floor_log_def
  round_half_even_def Let_def floor_numeral_div

lemmas amount_eval = parse_amount_def strip_amount_def digit_or_point_def py_isdigit_def ord_def
  float_of_str_def digits_value_def

lemma nearest_double_5000: "nearest_double 5000 = Finite 5000"
  by (simp add: double_eval)

lemma nearest_double_1234_56:
  "nearest_double (123456 / 100) = Finite (5429652300748554 / 2 ^ 42)"
  by (simp add: double_eval)

lemma float_repr_5000: "float_repr (Finite 5000) = ''5000.0''"
  by (simp add: repr_pos_def repr_candidate_def double_eval strip_zeros_def char_of_def
      bit_Suc_0_iff replicate_numeral)

lemma parse_amount_None: "parse_amount None = Inr (Finite 0)"
  by (simp add: amount_eval)

lemma parse_amount_empty: "parse_amount (Some '''') = Inr (Finite 0)"
  by (simp add: amount_eval)

lemma parse_amount_abc: "parse_amount (Some ''abc'') = Inr (Finite 0)"
  by (simp add: amount_eval)

lemma parse_amount_NA: "parse_amount (Some ''N/A'') = Inr (Finite 0)"
  by (simp add: amount_eval)

lemma parse_amount_5000: "parse_amount (Some ''$5,000'') = Inr (Finite 5000)"
proof -
  have "parse_amount (Some ''$5,000'') = Inr (nearest_double 5000)"
    by (simp add: amount_eval)
  then show ?thesis by (simp only: nearest_double_5000)
qed

lemma parse_amount_1234_56:
  "parse_amount (Some ''$1,234.56'') = Inr (nearest_double (123456 / 100))"
  by (simp add: amount_eval)

lemma py_isdigit_iff: "py_isdigit c \<longleftrightarrow> c \<in> set ''0123456789''"
  by (cases c) (auto simp: py_isdigit_def ord_def)

lemma strip_amount_spec: "strip_amount s = filter (\<lambda>c. c \<in> set ''0123456789.'') s"
proof -
  have "digit_or_point = (\<lambda>c. c \<in> set ''0123456789.'')"
    unfolding digit_or_point_def py_isdigit_iff by (rule ext) auto
  then show ?thesis by (simp only: strip_amount_def)
qed

lemma parse_amount_zero:
  assumes "s = None \<or> strip_amount (or_empty s) = []
             \<or> float_of_str (strip_amount (or_empty s)) = Inl ValueError"
  shows "parse_amount s = Inr (Finite 0)"
  using assms by (cases s) (auto simp: parse_amount_def Let_def)

lemma float_of_str_Nil: "float_of_str [] = Inl ValueError"
  by (simp add: float_of_str_def)

lemma parse_amount_value:
  assumes "float_of_str (strip_amount s) = Inr v"
  shows "parse_amount (Some s) = Inr v"
proof -
  from assms have "strip_amount s \<noteq> []" by (auto simp: float_of_str_Nil)
  then have "s \<noteq> []" by (auto simp: strip_amount_def)
  with assms \<open>strip_amount s \<noteq> []\<close> show ?thesis by (simp add: parse_amount_def)
qed

subsection \<open>Facts about extraction\<close>

lemma sets_group_patterns:
  "sets_group pat_policy_number" "sets_group pat_policyholder_name"
  "sets_group pat_effective_dates" "sets_group pat_incident_date"
  "sets_group pat_incident_time" "sets_group pat_incident_location"
  "sets_group pat_incident_description" "sets_group pat_claimant"
  "sets_group pat_third_parties" "sets_group pat_contact_details"
  "sets_group pat_asset_id" "sets_group pat_estimated_damage"
  "sets_group pat_claim_type" "sets_group pat_initial_estimate"
  by (simp_all add: pat_policy_number_def pat_policyholder_name_def pat_effective_dates_def
      pat_incident_date_def pat_incident_time_def pat_incident_location_def
      pat_incident_description_def pat_claimant_def pat_third_parties_def
      pat_contact_details_def pat_asset_id_def pat_estimated_damage_def pat_claim_type_def
      pat_initial_estimate_def pat_amount_def)

lemma extract_fields_eq: "extract_fields text = Inr (extracted text)"
  by (simp add: extract_fields_def extracted_def assign_def Let_def
      first_group_Inr sets_group_patterns)

lemma dom_extracted: "dom (extracted text) = set MANDATORY_FIELDS"
  by (auto simp: extracted_def MANDATORY_FIELDS_def)

lemma extracted_lookup:
  "list_all (\<lambda>(k, p). extracted text k = Some (group_value p text flags_I_S)) field_patterns"
  by (simp add: field_patterns_def extracted_def)

lemma extracted_absent:
  assumes "(k, p) \<in> set field_patterns" and "re_search flags_I_S p text = None"
  shows "extracted text k = Some None"
proof -
  from extracted_lookup assms(1) have "extracted text k = Some (group_value p text flags_I_S)"
    unfolding list_all_iff by blast
  with assms(2) show ?thesis by (simp add: group_value_def)
qed

lemma catalog_size: "length MANDATORY_FIELDS = 16 \<and> distinct MANDATORY_FIELDS"
  by (simp add: MANDATORY_FIELDS_def)

lemma attachments_of_cases:
  "attachments_of text = Some ''Yes'' \<or> attachments_of text = Some ''Unknown''"
  by (simp add: attachments_of_def split: option.splits)

lemma extracted_asset_type: "extracted text ''asset_type'' = Some (Some ''Vehicle'')"
  by (simp add: extracted_def)

lemma extracted_attachments: "extracted text ''attachments'' = Some (attachments_of text)"
  by (simp add: extracted_def)

lemmas rx_eval = first_group_def group_value_def star_def plus_def optional_def
  not_newline_def colon_space_def digit_def amount_char_def NL_def flags_I_S_def flags_I_def
  chr_match_def range_chars_def upt_rec py_strip_def char_eval

lemma extracted_policyholder_name:
  "extracted text ''policyholder_name'' = Some (group_value pat_policyholder_name text flags_I_S)"
  by (simp add: extracted_def)

lemma extracted_incident_location:
  "extracted text ''incident_location'' = Some (group_value pat_incident_location text flags_I_S)"
  by (simp add: extracted_def)

lemma extracted_incident_description:
  "extracted text ''incident_description''
     = Some (group_value pat_incident_description text flags_I_S)"
  by (simp add: extracted_def)

lemma name_example:
  "group_value pat_policyholder_name
     ''NAME OF INSURED\<newline>John Doe\<newline>LOCATION OF LOSS\<newline>5th Ave\<newline>REMARKS: none'' flags_I_S
   = Some ''John Doe\<newline>LOCATION OF LOSS\<newline>5th Ave\<newline>REMARKS: none''"
  by (simp add: pat_policyholder_name_def rx_eval)

lemma location_example:
  "group_value pat_incident_location
     ''NAME OF INSURED\<newline>John Doe\<newline>LOCATION OF LOSS\<newline>5th Ave\<newline>REMARKS: none'' flags_I_S
   = Some ''5th Ave\<newline>REMARKS: none''"
  by (simp add: pat_incident_location_def rx_eval)

lemma description_example:
  "group_value pat_incident_description
     ''DESCRIPTION OF ACCIDENT:\<newline>Car hit a pole.\<newline>notes: minor damage'' flags_I_S
   = Some ''Car hit a pole.''"
  by (simp add: pat_incident_description_def rx_eval)

lemma no_policy_number_example:
  "re_search flags_I_S pat_policy_number ''CLAIMANT: Jo'' = None"
  by (simp add: pat_policy_number_def rx_eval)
lemma patterns_on_empty_text:
  "list_all (\<lambda>(k, p). group_value p [] flags_I_S = None) field_patterns"
  by (simp add: field_patterns_def pat_policy_number_def pat_policyholder_name_def
      pat_effective_dates_def pat_incident_date_def pat_incident_time_def
      pat_incident_location_def pat_incident_description_def pat_claimant_def
      pat_third_parties_def pat_contact_details_def pat_asset_id_def pat_estimated_damage_def
      pat_claim_type_def pat_initial_estimate_def pat_amount_def rx_eval)

lemma attachments_of_empty: "attachments_of [] = Some ''Unknown''"
  by (simp add: attachments_of_def)

lemma attachments_example: "attachments_of ''See attachment A'' = Some ''Yes''"
  by (simp add: attachments_of_def rx_eval)

lemma not_blank_values:
  "py_strip ''Vehicle'' \<noteq> []" "py_strip ''Yes'' \<noteq> []" "py_strip ''Unknown'' \<noteq> []"
  by (simp_all add: py_strip_def char_eval)

lemma asset_type_not_missing: "\<not> spec_missing (extracted text) ''asset_type''"
  by (simp add: spec_missing_def extracted_asset_type not_blank_values)

lemma attachments_not_missing: "\<not> spec_missing (extracted text) ''attachments''"
  using attachments_of_cases [of "text"]
  by (auto simp: spec_missing_def extracted_attachments not_blank_values)

lemma missing_on_empty_text:
  "filter (spec_missing (extracted [])) MANDATORY_FIELDS =
    [''policy_number'', ''policyholder_name'', ''effective_dates'', ''incident_date'',
     ''incident_time'', ''incident_location'', ''incident_description'', ''claimant'',
     ''third_parties'', ''contact_details'', ''asset_id'', ''estimated_damage'',
     ''claim_type'', ''initial_estimate'']"
  using patterns_on_empty_text
  by (simp add: field_patterns_def MANDATORY_FIELDS_def spec_missing_def extracted_def
      attachments_of_empty not_blank_values)

lemma process_text_empty:
  "process_text [] = Inr \<lparr>extractedFields = extracted [],
     missingFields =
       [''policy_number'', ''policyholder_name'', ''effective_dates'', ''incident_date'',
        ''incident_time'', ''incident_location'', ''incident_description'', ''claimant'',
        ''third_parties'', ''contact_details'', ''asset_id'', ''estimated_damage'',
        ''claim_type'', ''initial_estimate''],
     recommendedRoute = ''Manual review'',
     reasoning = ''Missing mandatory fields: policy_number, policyholder_name, effective_dates, incident_date, incident_time, incident_location, incident_description, claimant, third_parties, contact_details, asset_id, estimated_damage, claim_type, initial_estimate''\<rparr>"
  by (simp add: process_text_def extract_fields_eq find_missing_fields_eq
      missing_on_empty_text route_claim_missing_rule)

lemma fallback_fields_missing:
  "filter (spec_missing fallback_fields) MANDATORY_FIELDS = [''estimated_damage'']"
  by (simp add: fallback_fields_def MANDATORY_FIELDS_def spec_missing_def py_strip_def char_eval)

lemma fallback_fields_estimates:
  "dict_get fallback_fields ''estimated_damage'' = None"
  "dict_get fallback_fields ''initial_estimate'' = Some ''$5,000''"
  by (simp_all add: fallback_fields_def dict_get_def)

lemma fallback_fields_no_rule:
  "\<not> list_ex (\<lambda>w. py_in w (py_lower (or_empty (dict_get fallback_fields ''incident_description''))))
       fraud_words"
  "\<not> py_in ''injury'' (py_lower (or_empty (dict_get fallback_fields ''claim_type'')))"
  by (simp_all add: fallback_fields_def dict_get_def py_lower_def fraud_words_def char_eval)

lemma estimate_absent_example:
  "group_value pat_estimated_damage ''INITIAL ESTIMATE: $5,000'' flags_I_S = None"
  by (simp add: pat_estimated_damage_def pat_amount_def rx_eval)

lemma process_text_estimate_absent:
  assumes "group_value pat_estimated_damage text flags_I_S = None"
  shows "\<exists>r. process_text text = Inr r \<and> ''estimated_damage'' \<in> set (missingFields r)
           \<and> recommendedRoute r = ''Manual review''"
proof -
  let ?f = "extracted text"
  let ?ms = "filter (spec_missing ?f) MANDATORY_FIELDS"
  from assms have "?f ''estimated_damage'' = Some None"
    by (simp add: extracted_def)
  then have "spec_missing ?f ''estimated_damage''"
    by (simp add: spec_missing_def)
  then have m: "''estimated_damage'' \<in> set ?ms"
    by (simp add: MANDATORY_FIELDS_def)
  then have "?ms \<noteq> []" by (metis empty_iff list.set(1))
  then have "route_claim ?f ?ms =
      Inr (''Manual review'', ''Missing mandatory fields: '' @ py_join '', '' ?ms)"
    by (rule route_claim_missing_rule)
  then have "process_text text = Inr \<lparr>extractedFields = ?f, missingFields = ?ms,
      recommendedRoute = ''Manual review'',
      reasoning = ''Missing mandatory fields: '' @ py_join '', '' ?ms\<rparr>"
    by (simp add: process_text_def extract_fields_eq find_missing_fields_eq)
  with m show ?thesis by simp
qed

lemma strip_amount_chars: "set (strip_amount s) \<subseteq> set ''0123456789.''"
  unfolding strip_amount_spec by auto

section \<open>The claims\<close>

text \<open>
  C1. Whatever the fields are: when the list of missing fields is not empty,
  \<^verbatim>\<open>route_claim\<close> returns, without raising, the destination \<^verbatim>\<open>Manual review\<close> and the
  justification that lists the missing names in the order given, joined by a comma and a
  space. The list that the pipeline passes is in catalog order.
\<close>

theorem C1_missing_rule_first:
  "missing \<noteq> [] \<Longrightarrow>
     route_claim f missing =
       Inr (''Manual review'', ''Missing mandatory fields: '' @ py_join '', '' missing)"
  by (rule route_claim_missing_rule)

theorem C1_missing_rule_first_witness:
  "[''policy_number'', ''claimant''] \<noteq> [] \<and>
   route_claim (Map.empty(''incident_description'' \<mapsto> Some ''staged'')) [''policy_number'', ''claimant'']
     = Inr (''Manual review'', ''Missing mandatory fields: policy_number, claimant'')"
  using C1_missing_rule_first
    [of "[''policy_number'', ''claimant'']" "Map.empty(''incident_description'' \<mapsto> Some ''staged'')"]
  by simp

text \<open>
  C2. With no missing field passed: when the lowered description contains "fraud",
  "inconsistent" or "staged" as a substring, \<^verbatim>\<open>route_claim\<close> returns
  \<^verbatim>\<open>Investigation Flag\<close>, whatever the claim type and the estimate are.
\<close>

theorem C2_fraud_before_injury_and_amount:
  assumes "w \<in> set [''fraud'', ''inconsistent'', ''staged'']"
    and "py_lower (or_empty (dict_get f ''incident_description'')) = p @ w @ q"
  shows "route_claim f [] =
    Inr (''Investigation Flag'', ''Description contains potential fraud indicators.'')"
proof -
  obtain est where est:
    "parse_amount (py_or (dict_get f ''estimated_damage'') (dict_get f ''initial_estimate''))
       = Inr est"
    using parse_amount_total by blast
  from assms(2) have "py_in w (py_lower (or_empty (dict_get f ''incident_description'')))"
    using py_in_iff by blast
  with assms(1) have
    "list_ex (\<lambda>w. py_in w (py_lower (or_empty (dict_get f ''incident_description''))))
       fraud_words"
    unfolding list_ex_iff fraud_words_def by blast
  with est show ?thesis by (simp add: route_claim_def)
qed

theorem C2_fraud_before_injury_and_amount_witness:
  "py_in ''injury'' (py_lower ''Bodily Injury'')
   \<and> parse_amount (Some ''$5,000'') = Inr (Finite 5000)
   \<and> route_claim (Map.empty(''incident_description'' \<mapsto> Some ''It was STAGED.'',
        ''claim_type'' \<mapsto> Some ''Bodily Injury'', ''estimated_damage'' \<mapsto> Some ''$5,000'')) []
     = Inr (''Investigation Flag'', ''Description contains potential fraud indicators.'')"
proof -
  let ?f = "Map.empty(''incident_description'' \<mapsto> Some ''It was STAGED.'',
        ''claim_type'' \<mapsto> Some ''Bodily Injury'', ''estimated_damage'' \<mapsto> Some ''$5,000'')"
  have 1: "''staged'' \<in> set [''fraud'', ''inconsistent'', ''staged'']" by simp
  have 2: "py_lower (or_empty (dict_get ?f ''incident_description''))
             = ''it was '' @ ''staged'' @ ''.''"
    by (simp add: dict_get_def py_lower_def char_eval)
  have 3: "py_in ''injury'' (py_lower ''Bodily Injury'')"
    by (simp add: py_lower_def char_eval)
  from C2_fraud_before_injury_and_amount [OF 1 2] 3 parse_amount_5000 show ?thesis by blast
qed

text \<open>
  C3. \<^verbatim>\<open>parse_amount\<close> returns a number for every string and for \<^verbatim>\<open>None\<close>, and never
  raises. It gives 0.0 for \<^verbatim>\<open>None\<close>, for \<^verbatim>\<open>"abc"\<close> and for the empty string, and for
  \<^verbatim>\<open>"$1,234.56"\<close> the float nearest to 1234.56, which is what the literal \<^verbatim>\<open>1234.56\<close>
  denotes. It keeps the digits and points of the string and drops every other character;
  the result is 0.0 whenever the input is \<^verbatim>\<open>None\<close>, or nothing is left, or what is left
  is no number, and otherwise the number that is left.
\<close>

theorem C3_parse_amount_total:
  "(\<exists>v. parse_amount s = Inr v)
   \<and> parse_amount None = Inr (Finite 0)
   \<and> parse_amount (Some ''$1,234.56'') = Inr (nearest_double (123456 / 100))
   \<and> nearest_double (123456 / 100) = Finite (5429652300748554 / 2 ^ 42)
   \<and> parse_amount (Some ''abc'') = Inr (Finite 0)
   \<and> parse_amount (Some []) = Inr (Finite 0)
   \<and> strip_amount t = filter (\<lambda>c. c \<in> set ''0123456789.'') t
   \<and> (s = None \<or> strip_amount (or_empty s) = []
        \<or> float_of_str (strip_amount (or_empty s)) = Inl ValueError
       \<longrightarrow> parse_amount s = Inr (Finite 0))
   \<and> (float_of_str (strip_amount t) = Inr v' \<longrightarrow> parse_amount (Some t) = Inr v')"
  using parse_amount_total [of s] parse_amount_None parse_amount_1234_56
    nearest_double_1234_56 parse_amount_abc parse_amount_empty strip_amount_spec [of t]
    parse_amount_zero [of s] parse_amount_value [of t v']
  by blast

theorem C3_parse_amount_total_witness:
  "float_of_str (strip_amount (or_empty (Some ''1.2.3''))) = Inl ValueError
   \<and> parse_amount (Some ''1.2.3'') = Inr (Finite 0)
   \<and> float_of_str (strip_amount ''$5,000'') = Inr (Finite 5000)
   \<and> parse_amount (Some ''$5,000'') = Inr (Finite 5000)"
proof -
  have h1: "float_of_str (strip_amount (or_empty (Some ''1.2.3''))) = Inl ValueError"
    by (simp add: amount_eval)
  have "float_of_str (strip_amount ''$5,000'') = Inr (nearest_double 5000)"
    by (simp add: amount_eval)
  then have h2: "float_of_str (strip_amount ''$5,000'') = Inr (Finite 5000)"
    by (simp only: nearest_double_5000)
  from h1 h2 C3_parse_amount_total [of "Some ''1.2.3''" "''$5,000''" "Finite 5000"]
  show ?thesis by blast
qed

text \<open>
  C4. For every text, \<^verbatim>\<open>extract_fields\<close> returns a dictionary and does not raise; its
  keys are the 16 keys of the catalog, and a field whose pattern has no match in the text
  has the value \<^verbatim>\<open>None\<close>.
\<close>

theorem C4_extract_fields_all_keys:
  "\<exists>f. extract_fields text = Inr f
     \<and> dom f = set MANDATORY_FIELDS
     \<and> length MANDATORY_FIELDS = 16 \<and> distinct MANDATORY_FIELDS
     \<and> (\<forall>(k, p) \<in> set field_patterns. re_search flags_I_S p text = None \<longrightarrow> f k = Some None)"
  using extract_fields_eq [of "text"] dom_extracted [of "text"] catalog_size
    extracted_absent [of _ _ "text"]
  by blast

theorem C4_extract_fields_all_keys_witness:
  "re_search flags_I_S pat_policy_number ''CLAIMANT: Jo'' = None
   \<and> (\<exists>f. extract_fields ''CLAIMANT: Jo'' = Inr f \<and> dom f = set MANDATORY_FIELDS
          \<and> f ''policy_number'' = Some None)"
proof -
  have mem: "(''policy_number'', pat_policy_number) \<in> set field_patterns"
    by (simp add: field_patterns_def)
  from C4_extract_fields_all_keys [of "''CLAIMANT: Jo''"]
  obtain f where f: "extract_fields ''CLAIMANT: Jo'' = Inr f" "dom f = set MANDATORY_FIELDS"
    and every: "\<forall>(k, p) \<in> set field_patterns.
      re_search flags_I_S p ''CLAIMANT: Jo'' = None \<longrightarrow> f k = Some None"
    by blast
  from every mem have
    "re_search flags_I_S pat_policy_number ''CLAIMANT: Jo'' = None
       \<longrightarrow> f ''policy_number'' = Some None"
    by fastforce
  with no_policy_number_example f show ?thesis by blast
qed

text \<open>
  C5. For every dictionary of fields, \<^verbatim>\<open>find_missing_fields\<close> returns, without raising,
  the catalog filtered by "the value is absent, or empty once stripped": the keys are in
  catalog order, and a key is in the result exactly when it is a catalog key that is
  missing in this sense.
\<close>

theorem C5_find_missing_fields_exact:
  "\<exists>ms. find_missing_fields f = Inr ms
     \<and> ms = filter (spec_missing f) MANDATORY_FIELDS
     \<and> (\<forall>k. k \<in> set ms \<longleftrightarrow> k \<in> set MANDATORY_FIELDS \<and> spec_missing f k)"
  by (simp add: find_missing_fields_eq)

theorem C5_find_missing_fields_exact_witness:
  "find_missing_fields
     (Map.empty(''policy_number'' \<mapsto> Some ''  '', ''asset_type'' \<mapsto> Some ''Vehicle'',
                ''claimant'' \<mapsto> None, ''other'' \<mapsto> None))
   = Inr [''policy_number'', ''policyholder_name'', ''effective_dates'',
          ''incident_date'', ''incident_time'', ''incident_location'',
          ''incident_description'', ''claimant'', ''third_parties'',
          ''contact_details'', ''asset_id'', ''estimated_damage'', ''claim_type'',
          ''attachments'', ''initial_estimate'']"
  using C5_find_missing_fields_exact
    [of "Map.empty(''policy_number'' \<mapsto> Some ''  '', ''asset_type'' \<mapsto> Some ''Vehicle'',
                   ''claimant'' \<mapsto> None, ''other'' \<mapsto> None)"]
  by (simp add: MANDATORY_FIELDS_def spec_missing_def py_strip_def py_isspace_def ord_def)

text \<open>
  C6. With no missing field passed, no fraud word in the description and no "injury" in
  the claim type: when \<^verbatim>\<open>estimated_damage\<close> is \<^verbatim>\<open>"N/A"\<close> and \<^verbatim>\<open>initial_estimate\<close> is
  \<^verbatim>\<open>"$5,000"\<close>, the amount that is parsed is \<^verbatim>\<open>"N/A"\<close> (the fallback is not taken, though it
  would give 5000.0), the estimate is 0.0, and \<^verbatim>\<open>route_claim\<close> returns \<^verbatim>\<open>Manual review\<close>
  by its last rule.
\<close>

theorem C6_unparsable_estimate_no_fallback:
  assumes "f ''estimated_damage'' = Some (Some ''N/A'')"
    and "f ''initial_estimate'' = Some (Some ''$5,000'')"
    and "\<not> list_ex (\<lambda>w. py_in w (py_lower (or_empty (dict_get f ''incident_description''))))
            fraud_words"
    and "\<not> py_in ''injury'' (py_lower (or_empty (dict_get f ''claim_type'')))"
  shows "py_or (dict_get f ''estimated_damage'') (dict_get f ''initial_estimate'') = Some ''N/A''
    \<and> parse_amount (Some ''N/A'') = Inr (Finite 0)
    \<and> parse_amount (dict_get f ''initial_estimate'') = Inr (Finite 5000)
    \<and> route_claim f [] = Inr (''Manual review'', ''No specific routing rule matched.'')"
proof -
  have e: "py_or (dict_get f ''estimated_damage'') (dict_get f ''initial_estimate'') = Some ''N/A''"
    using assms(1) by (simp add: py_or_def dict_get_def)
  have i: "parse_amount (dict_get f ''initial_estimate'') = Inr (Finite 5000)"
    using assms(2) by (simp add: dict_get_def parse_amount_5000)
  have "route_claim f [] = Inr (''Manual review'', ''No specific routing rule matched.'')"
    using assms(3,4) by (simp add: route_claim_def e parse_amount_NA)
  with e i parse_amount_NA show ?thesis by blast
qed

theorem C6_unparsable_estimate_no_fallback_witness:
  "route_claim (Map.empty(''estimated_damage'' \<mapsto> Some ''N/A'',
       ''initial_estimate'' \<mapsto> Some ''$5,000'', ''incident_description'' \<mapsto> Some ''Rear-ended'',
       ''claim_type'' \<mapsto> Some ''Collision'')) []
   = Inr (''Manual review'', ''No specific routing rule matched.'')"
proof -
  let ?f = "Map.empty(''estimated_damage'' \<mapsto> Some ''N/A'',
       ''initial_estimate'' \<mapsto> Some ''$5,000'', ''incident_description'' \<mapsto> Some ''Rear-ended'',
       ''claim_type'' \<mapsto> Some ''Collision'')"
  have 1: "?f ''estimated_damage'' = Some (Some ''N/A'')" by simp
  have 2: "?f ''initial_estimate'' = Some (Some ''$5,000'')" by simp
  have 3: "\<not> list_ex (\<lambda>w. py_in w (py_lower (or_empty (dict_get ?f ''incident_description''))))
            fraud_words"
    by (simp add: dict_get_def py_lower_def fraud_words_def char_eval)
  have 4: "\<not> py_in ''injury'' (py_lower (or_empty (dict_get ?f ''claim_type'')))"
    by (simp add: dict_get_def py_lower_def char_eval)
  from C6_unparsable_estimate_no_fallback [OF 1 2 3 4] show ?thesis by blast
qed

text \<open>
  C7, as amended. When \<^verbatim>\<open>estimated_damage\<close> is absent and \<^verbatim>\<open>initial_estimate\<close> is
  \<^verbatim>\<open>"$5,000"\<close>, with no fraud word and no "injury": \<^verbatim>\<open>route_claim\<close> called with an empty
  list of missing fields returns \<^verbatim>\<open>Fast-track\<close> and cites 5000.0, the value parsed from
  \<^verbatim>\<open>initial_estimate\<close>. The pipeline does not get there: \<^verbatim>\<open>find_missing_fields\<close> reports
  \<^verbatim>\<open>estimated_damage\<close>, and with that list \<^verbatim>\<open>route_claim\<close> returns \<^verbatim>\<open>Manual review\<close>; so
  does \<^verbatim>\<open>process_fnol\<close> on every text in which the pattern of \<^verbatim>\<open>estimated_damage\<close> has no
  match.
\<close>

theorem C7_fallback_only_without_missing_list:
  assumes "dict_get f ''estimated_damage'' = None"
    and "dict_get f ''initial_estimate'' = Some ''$5,000''"
    and "\<not> list_ex (\<lambda>w. py_in w (py_lower (or_empty (dict_get f ''incident_description''))))
            fraud_words"
    and "\<not> py_in ''injury'' (py_lower (or_empty (dict_get f ''claim_type'')))"
  shows "route_claim f [] = Inr (''Fast-track'', ''Estimated damage 5000.0 < 25000.'')
    \<and> (\<exists>ms. find_missing_fields f = Inr ms \<and> ''estimated_damage'' \<in> set ms
          \<and> route_claim f ms =
              Inr (''Manual review'', ''Missing mandatory fields: '' @ py_join '', '' ms))
    \<and> (group_value pat_estimated_damage text flags_I_S = None \<longrightarrow>
         (\<exists>r. process_text text = Inr r \<and> ''estimated_damage'' \<in> set (missingFields r)
            \<and> recommendedRoute r = ''Manual review''))"
proof -
  have est: "parse_amount (py_or (dict_get f ''estimated_damage'') (dict_get f ''initial_estimate''))
               = Inr (Finite 5000)"
    using assms(1,2) by (simp add: py_or_def parse_amount_5000)
  have a: "route_claim f [] = Inr (''Fast-track'', ''Estimated damage 5000.0 < 25000.'')"
    using assms(3,4) by (simp add: route_claim_def est float_repr_5000 del: float_repr.simps)
  let ?ms = "filter (spec_missing f) MANDATORY_FIELDS"
  from assms(1) have "spec_missing f ''estimated_damage''"
    by (auto simp: spec_missing_def dict_get_def split: option.splits)
  then have m: "''estimated_damage'' \<in> set ?ms"
    by (simp add: MANDATORY_FIELDS_def)
  then have "?ms \<noteq> []" by (metis empty_iff list.set(1))
  then have "route_claim f ?ms =
      Inr (''Manual review'', ''Missing mandatory fields: '' @ py_join '', '' ?ms)"
    by (rule route_claim_missing_rule)
  with m find_missing_fields_eq [of f] a process_text_estimate_absent [of "text"]
  show ?thesis by blast
qed

theorem C7_fallback_only_without_missing_list_witness:
  "route_claim fallback_fields [] = Inr (''Fast-track'', ''Estimated damage 5000.0 < 25000.'')
   \<and> (\<exists>ms. find_missing_fields fallback_fields = Inr ms \<and> ''estimated_damage'' \<in> set ms
         \<and> route_claim fallback_fields ms =
             Inr (''Manual review'', ''Missing mandatory fields: '' @ py_join '', '' ms))
   \<and> (\<exists>r. process_text ''INITIAL ESTIMATE: $5,000'' = Inr r
         \<and> ''estimated_damage'' \<in> set (missingFields r)
         \<and> recommendedRoute r = ''Manual review'')"
  using C7_fallback_only_without_missing_list
    [OF fallback_fields_estimates fallback_fields_no_rule, of "''INITIAL ESTIMATE: $5,000''"]
    estimate_absent_example
  by blast

text \<open>
  C7 as stated fails in the pipeline: for these fields, where only \<^verbatim>\<open>estimated_damage\<close> is
  absent and \<^verbatim>\<open>initial_estimate\<close> is \<^verbatim>\<open>"$5,000"\<close>, \<^verbatim>\<open>find_missing_fields\<close> returns
  \<^verbatim>\<open>estimated_damage\<close> and \<^verbatim>\<open>route_claim\<close>, given that list as \<^verbatim>\<open>process_fnol\<close> gives it,
  returns \<^verbatim>\<open>Manual review\<close>, not \<^verbatim>\<open>Fast-track\<close>.
\<close>

theorem C7_pipeline_routes_to_manual_review:
  "dict_get fallback_fields ''estimated_damage'' = None
   \<and> dict_get fallback_fields ''initial_estimate'' = Some ''$5,000''
   \<and> find_missing_fields fallback_fields = Inr [''estimated_damage'']
   \<and> route_claim fallback_fields [''estimated_damage'']
       = Inr (''Manual review'', ''Missing mandatory fields: estimated_damage'')"
  by (simp add: fallback_fields_estimates find_missing_fields_eq fallback_fields_missing
      route_claim_missing_rule)

text \<open>
  C8. The claim: the extracted \<^verbatim>\<open>policyholder_name\<close> is the rest of the line after the
  line with "NAME OF INSURED", and nothing beyond that line; likewise
  \<^verbatim>\<open>incident_location\<close> after "LOCATION OF LOSS". The code on a text with more lines
  after the name: under \<^verbatim>\<open>re.S\<close> the group \<^verbatim>\<open>(.*)\<close> runs to the end of the text, so both
  fields hold all the lines that follow.
\<close>

theorem C8_name_and_location_run_to_end_of_text:
  "map_sum id (\<lambda>f. (f ''policyholder_name'', f ''incident_location''))
     (extract_fields
        ''NAME OF INSURED\<newline>John Doe\<newline>LOCATION OF LOSS\<newline>5th Ave\<newline>REMARKS: none'')
   = Inr (Some (Some ''John Doe\<newline>LOCATION OF LOSS\<newline>5th Ave\<newline>REMARKS: none''),
          Some (Some ''5th Ave\<newline>REMARKS: none''))"
  by (simp add: extract_fields_eq extracted_policyholder_name extracted_incident_location
      name_example location_example)

text \<open>
  C9. The claim: a line of five or more lower-case letters and a colon does not end the
  description. The code on such a text: under \<^verbatim>\<open>re.I\<close> the class \<^verbatim>\<open>[A-Z ]\<close> matches
  lower-case letters too, so the line "notes:" ends the description.
\<close>

theorem C9_lowercase_heading_ends_description:
  "map_sum id (\<lambda>f. f ''incident_description'')
     (extract_fields ''DESCRIPTION OF ACCIDENT:\<newline>Car hit a pole.\<newline>notes: minor damage'')
   = Inr (Some (Some ''Car hit a pole.''))"
  by (simp add: extract_fields_eq extracted_incident_description description_example)

text \<open>
  C10. For every text, \<^verbatim>\<open>asset_type\<close> is \<^verbatim>\<open>"Vehicle"\<close> and \<^verbatim>\<open>attachments\<close> is \<^verbatim>\<open>"Yes"\<close> or
  \<^verbatim>\<open>"Unknown"\<close>, and neither is in the list that \<^verbatim>\<open>find_missing_fields\<close> returns for the
  extracted fields. For the empty text the list is the other 14 catalog fields in catalog
  order, and the route is \<^verbatim>\<open>Manual review\<close>.
\<close>

theorem C10_asset_type_and_attachments_never_missing:
  "(\<exists>f ms. extract_fields text = Inr f
      \<and> f ''asset_type'' = Some (Some ''Vehicle'')
      \<and> (f ''attachments'' = Some (Some ''Yes'') \<or> f ''attachments'' = Some (Some ''Unknown''))
      \<and> find_missing_fields f = Inr ms
      \<and> ''asset_type'' \<notin> set ms \<and> ''attachments'' \<notin> set ms)
   \<and> (\<exists>r. process_text [] = Inr r
      \<and> missingFields r =
          [''policy_number'', ''policyholder_name'', ''effective_dates'', ''incident_date'',
           ''incident_time'', ''incident_location'', ''incident_description'', ''claimant'',
           ''third_parties'', ''contact_details'', ''asset_id'', ''estimated_damage'',
           ''claim_type'', ''initial_estimate'']
      \<and> recommendedRoute r = ''Manual review'')"
proof -
  let ?f = "extracted text"
  let ?ms = "filter (spec_missing ?f) MANDATORY_FIELDS"
  have a: "?f ''attachments'' = Some (Some ''Yes'') \<or> ?f ''attachments'' = Some (Some ''Unknown'')"
    using attachments_of_cases [of "text"] by (auto simp: extracted_attachments)
  have m: "''asset_type'' \<notin> set ?ms \<and> ''attachments'' \<notin> set ?ms"
    by (simp add: asset_type_not_missing attachments_not_missing)
  have "\<exists>f ms. extract_fields text = Inr f
      \<and> f ''asset_type'' = Some (Some ''Vehicle'')
      \<and> (f ''attachments'' = Some (Some ''Yes'') \<or> f ''attachments'' = Some (Some ''Unknown''))
      \<and> find_missing_fields f = Inr ms
      \<and> ''asset_type'' \<notin> set ms \<and> ''attachments'' \<notin> set ms"
    using extract_fields_eq [of "text"] extracted_asset_type [of "text"] a
      find_missing_fields_eq [of ?f] m by blast
  moreover have "\<exists>r. process_text [] = Inr r
      \<and> missingFields r =
          [''policy_number'', ''policyholder_name'', ''effective_dates'', ''incident_date'',
           ''incident_time'', ''incident_location'', ''incident_description'', ''claimant'',
           ''third_parties'', ''contact_details'', ''asset_id'', ''estimated_damage'',
           ''claim_type'', ''initial_estimate'']
      \<and> recommendedRoute r = ''Manual review''"
    by (simp add: process_text_empty)
  ultimately show ?thesis by blast
qed

theorem C10_asset_type_and_attachments_never_missing_witness:
  "\<exists>f ms. extract_fields ''See attachment A'' = Inr f
      \<and> f ''asset_type'' = Some (Some ''Vehicle'')
      \<and> f ''attachments'' = Some (Some ''Yes'')
      \<and> find_missing_fields f = Inr ms
      \<and> ''asset_type'' \<notin> set ms \<and> ''attachments'' \<notin> set ms"
proof -
  from C10_asset_type_and_attachments_never_missing [of "''See attachment A''"]
  obtain f ms where f: "extract_fields ''See attachment A'' = Inr f"
    and r: "f ''asset_type'' = Some (Some ''Vehicle'')" "find_missing_fields f = Inr ms"
      "''asset_type'' \<notin> set ms" "''attachments'' \<notin> set ms"
    by blast
  from f have "f = extracted ''See attachment A''" by (simp add: extract_fields_eq)
  then have "f ''attachments'' = Some (Some ''Yes'')"
    by (simp add: extracted_attachments attachments_example)
  with f r show ?thesis by blast
qed

end
